theory Spec2Isabelle
  imports Main "HOL-Library.Word"
begin

section \<open>GLib scalars, pointers and the state the device layer runs in\<close>

text \<open>
  The embedding follows \<^verbatim>\<open>src/arvdevice.c\<close>. That file is a thin layer: every function
  checks its arguments with GLib's \<^verbatim>\<open>g_return_val_if_fail\<close>, then either forwards to a
  slot of the device class (the transport) or resolves a feature name to a GenICam node
  and forwards to an accessor of that node. The transports and the node classes are other
  files; here they are parameters (a record of functions each), so that a theorem about
  this file holds for every transport and every node library. One camera, with its
  feature tree and its transport, is modelled from the specification further down; it
  serves the round trip of an Integer feature and the worked examples.

  A pointer is an \<open>option\<close>: \<open>NULL\<close> is \<open>None\<close>. Integers have their C width;
  \<^verbatim>\<open>gboolean\<close> is GLib's \<^verbatim>\<open>gint\<close>, a signed 32-bit \<^verbatim>\<open>int\<close>.
  A \<^verbatim>\<open>double\<close> is only ever passed through by this file, and its single literal is
  \<^verbatim>\<open>0.0\<close>, so a double is kept as its IEEE-754 bit pattern.
\<close>

type_synonym guint32 = "32 word"
type_synonym gint64 = "64 word"
type_synonym gboolean = "32 word"
type_synonym size_t = "64 word"
type_synonym addr = nat
type_synonym cstr = "string option"

datatype gdouble = Double "64 word"

abbreviation NULL :: "'a option" where
  "NULL \<equiv> None"

definition zero_double :: gdouble where
  "zero_double = Double 0"

text \<open>
  Memory the caller can hand out pointers to: out-parameters and buffers, one map per
  C object type.
\<close>

record memory =
  bytes :: "addr \<Rightarrow> 8 word"
  u32s :: "addr \<Rightarrow> guint32"
  sizes :: "addr \<Rightarrow> size_t"
  i64s :: "addr \<Rightarrow> gint64"
  doubles :: "addr \<Rightarrow> gdouble"

text \<open>
  Every call that leaves \<^verbatim>\<open>arvdevice.c\<close> is recorded, in order: the virtual methods of
  the device class, the lookup in the feature tree, the accessors of a node (\<open>'n\<close> is a
  node), and the emission of the signal. The record is what
  "the transport is not invoked" and "no other accessor is tried" are stated on.
\<close>

datatype 'n call =
    V_create_stream
  | V_read_memory guint32 guint32
  | V_write_memory guint32 guint32
  | V_read_register guint32
  | V_write_register guint32 guint32
  | V_get_genicam
  | V_get_genicam_xml
  | Gc_get_node cstr
  | Command_execute 'n
  | Enumeration_set_string_value 'n cstr
  | Enumeration_get_string_value 'n
  | String_set_value 'n cstr
  | String_get_value 'n
  | Integer_set_value 'n gint64
  | Integer_get_value 'n
  | Integer_get_min 'n
  | Integer_get_max 'n
  | Enumeration_set_int_value 'n gint64
  | Enumeration_get_int_value 'n
  | Boolean_set_value 'n gboolean
  | Boolean_get_value 'n
  | Float_set_value 'n gdouble
  | Float_get_value 'n
  | Float_get_min 'n
  | Float_get_max 'n
  | Signal_emit

text \<open>
  The world: \<open>lib\<close> is the state of the transport and of its feature tree, opaque to
  this file; \<open>heap\<close> is the caller's memory; \<open>calls\<close> is the record of outgoing calls;
  \<open>criticals\<close> is what \<^verbatim>\<open>g_return_if_fail_warning\<close> has logged (function, failed
  expression); \<open>observers\<close> are the handlers connected to \<^verbatim>\<open>control-lost\<close>.
\<close>

record ('n, 't) world =
  lib :: 't
  heap :: memory
  calls :: "'n call list"
  criticals :: "(string \<times> string) list"
  observers :: "('t \<Rightarrow> 't) list"

definition g_return_if_fail_warning ::
  "string \<Rightarrow> string \<Rightarrow> ('n, 't) world \<Rightarrow> ('n, 't) world" where
  "g_return_if_fail_warning func expr w = w\<lparr>criticals := criticals w @ [(func, expr)]\<rparr>"

text \<open>
  A call out of this file. A callee that is given no pointer into the caller's memory
  works on \<open>lib\<close> alone (\<open>call_lib\<close>, \<open>call_void\<close> for a \<^verbatim>\<open>void\<close> callee); one that
  is given a buffer or an out-parameter works on \<open>lib\<close> and \<open>heap\<close> (\<open>call_mem\<close>).
\<close>

definition call_lib ::
  "'n call \<Rightarrow> ('t \<Rightarrow> 'r \<times> 't) \<Rightarrow> ('n, 't) world \<Rightarrow> 'r \<times> ('n, 't) world" where
  "call_lib c f w =
     (case f (lib w) of (r, l) \<Rightarrow> (r, w\<lparr>lib := l, calls := calls w @ [c]\<rparr>))"

definition call_void ::
  "'n call \<Rightarrow> ('t \<Rightarrow> 't) \<Rightarrow> ('n, 't) world \<Rightarrow> ('n, 't) world" where
  "call_void c f w = w\<lparr>lib := f (lib w), calls := calls w @ [c]\<rparr>"

definition call_mem ::
  "'n call \<Rightarrow> ('t \<Rightarrow> memory \<Rightarrow> 'r \<times> 't \<times> memory) \<Rightarrow> ('n, 't) world
     \<Rightarrow> 'r \<times> ('n, 't) world" where
  "call_mem c f w =
     (case f (lib w) (heap w) of
        (r, l, m) \<Rightarrow> (r, w\<lparr>lib := l, heap := m, calls := calls w @ [c]\<rparr>))"

section \<open>The device class and the device handle\<close>

text \<open>
  \<^verbatim>\<open>ArvDeviceClass\<close>: the slots a transport fills in. The receiver is folded into each
  closure. A slot that is handed a pointer gets it already checked non-null by the
  public wrapper, hence \<open>addr\<close> and not \<open>addr option\<close> for \<^verbatim>\<open>buffer\<close>, \<^verbatim>\<open>value\<close> and
  \<^verbatim>\<open>size\<close>. \<open>control_lost\<close> is the class handler of the signal and may be unset.
\<close>

record ('g, 't) ArvDeviceClass =
  create_stream :: "addr option \<Rightarrow> addr option \<Rightarrow> 't \<Rightarrow> memory \<Rightarrow> addr option \<times> 't \<times> memory"
  read_memory :: "guint32 \<Rightarrow> guint32 \<Rightarrow> addr \<Rightarrow> 't \<Rightarrow> memory \<Rightarrow> bool \<times> 't \<times> memory"
  write_memory :: "guint32 \<Rightarrow> guint32 \<Rightarrow> addr \<Rightarrow> 't \<Rightarrow> memory \<Rightarrow> bool \<times> 't \<times> memory"
  read_register :: "guint32 \<Rightarrow> addr \<Rightarrow> 't \<Rightarrow> memory \<Rightarrow> bool \<times> 't \<times> memory"
  write_register :: "guint32 \<Rightarrow> guint32 \<Rightarrow> 't \<Rightarrow> bool \<times> 't"
  get_genicam :: "'t \<Rightarrow> 'g option \<times> 't"
  get_genicam_xml :: "addr \<Rightarrow> 't \<Rightarrow> memory \<Rightarrow> cstr \<times> 't \<times> memory"
  control_lost :: "('t \<Rightarrow> 't) option"

text \<open>
  What an \<^verbatim>\<open>ArvDevice *\<close> can point to: an instance of (a subclass of) ArvDevice, which
  carries its class, or some other object. \<^verbatim>\<open>ARV_IS_DEVICE\<close> is GObject's instance
  type check, false on \<open>NULL\<close>; \<^verbatim>\<open>ARV_DEVICE_GET_CLASS\<close> reads the class of an instance.
\<close>

datatype ('g, 't) GObject =
    ArvDevice_instance "('g, 't) ArvDeviceClass"
  | Other_instance

type_synonym ('g, 't) ArvDevice = "('g, 't) GObject option"

fun ARV_DEVICE_GET_CLASS :: "('g, 't) ArvDevice \<Rightarrow> ('g, 't) ArvDeviceClass option" where
  "ARV_DEVICE_GET_CLASS (Some (ArvDevice_instance c)) = Some c"
| "ARV_DEVICE_GET_CLASS (Some Other_instance) = None"
| "ARV_DEVICE_GET_CLASS None = None"

definition ARV_IS_DEVICE :: "('g, 't) ArvDevice \<Rightarrow> bool" where
  "ARV_IS_DEVICE device = (ARV_DEVICE_GET_CLASS device \<noteq> None)"

section \<open>Register, memory and stream access\<close>

text \<open>
  Each function is its guards, in the order of the source, then the delegation.
  \<^verbatim>\<open>g_return_val_if_fail (e, v)\<close> logs a critical warning and returns \<open>v\<close> when \<open>e\<close> is
  false (GLib's default build; the checks are compiled in).
\<close>

definition arv_device_create_stream ::
  "('g, 't) ArvDevice \<Rightarrow> addr option \<Rightarrow> addr option \<Rightarrow> ('n, 't) world
     \<Rightarrow> addr option \<times> ('n, 't) world" where
  "arv_device_create_stream device callback user_data w =
     (case ARV_DEVICE_GET_CLASS device of
        None \<Rightarrow>
          (NULL, g_return_if_fail_warning ''arv_device_create_stream'' ''ARV_IS_DEVICE (device)'' w)
      | Some cls \<Rightarrow> call_mem V_create_stream (create_stream cls callback user_data) w)"

definition arv_device_read_memory ::
  "('g, 't) ArvDevice \<Rightarrow> guint32 \<Rightarrow> guint32 \<Rightarrow> addr option \<Rightarrow> ('n, 't) world
     \<Rightarrow> bool \<times> ('n, 't) world" where
  "arv_device_read_memory device address sz buffer w =
     (case ARV_DEVICE_GET_CLASS device of
        None \<Rightarrow>
          (False, g_return_if_fail_warning ''arv_device_read_memory'' ''ARV_IS_DEVICE (device)'' w)
      | Some cls \<Rightarrow>
          (case buffer of
             None \<Rightarrow>
               (False, g_return_if_fail_warning ''arv_device_read_memory'' ''buffer != NULL'' w)
           | Some b \<Rightarrow>
               if \<not> 0 < sz
               then (False, g_return_if_fail_warning ''arv_device_read_memory'' ''size > 0'' w)
               else call_mem (V_read_memory address sz) (read_memory cls address sz b) w))"

definition arv_device_write_memory ::
  "('g, 't) ArvDevice \<Rightarrow> guint32 \<Rightarrow> guint32 \<Rightarrow> addr option \<Rightarrow> ('n, 't) world
     \<Rightarrow> bool \<times> ('n, 't) world" where
  "arv_device_write_memory device address sz buffer w =
     (case ARV_DEVICE_GET_CLASS device of
        None \<Rightarrow>
          (False, g_return_if_fail_warning ''arv_device_write_memory'' ''ARV_IS_DEVICE (device)'' w)
      | Some cls \<Rightarrow>
          (case buffer of
             None \<Rightarrow>
               (False, g_return_if_fail_warning ''arv_device_write_memory'' ''buffer != NULL'' w)
           | Some b \<Rightarrow>
               if \<not> 0 < sz
               then (False, g_return_if_fail_warning ''arv_device_write_memory'' ''size > 0'' w)
               else call_mem (V_write_memory address sz) (write_memory cls address sz b) w))"

definition arv_device_read_register ::
  "('g, 't) ArvDevice \<Rightarrow> guint32 \<Rightarrow> addr option \<Rightarrow> ('n, 't) world
     \<Rightarrow> bool \<times> ('n, 't) world" where
  "arv_device_read_register device address val w =
     (case ARV_DEVICE_GET_CLASS device of
        None \<Rightarrow>
          (False, g_return_if_fail_warning ''arv_device_read_register'' ''ARV_IS_DEVICE (device)'' w)
      | Some cls \<Rightarrow>
          (case val of
             None \<Rightarrow>
               (False, g_return_if_fail_warning ''arv_device_read_register'' ''value != NULL'' w)
           | Some p \<Rightarrow> call_mem (V_read_register address) (read_register cls address p) w))"

definition arv_device_write_register ::
  "('g, 't) ArvDevice \<Rightarrow> guint32 \<Rightarrow> guint32 \<Rightarrow> ('n, 't) world \<Rightarrow> bool \<times> ('n, 't) world" where
  "arv_device_write_register device address val w =
     (case ARV_DEVICE_GET_CLASS device of
        None \<Rightarrow>
          (False, g_return_if_fail_warning ''arv_device_write_register'' ''ARV_IS_DEVICE (device)'' w)
      | Some cls \<Rightarrow> call_lib (V_write_register address val) (write_register cls address val) w)"

definition arv_device_get_genicam ::
  "('g, 't) ArvDevice \<Rightarrow> ('n, 't) world \<Rightarrow> 'g option \<times> ('n, 't) world" where
  "arv_device_get_genicam device w =
     (case ARV_DEVICE_GET_CLASS device of
        None \<Rightarrow>
          (NULL, g_return_if_fail_warning ''arv_device_get_genicam'' ''ARV_IS_DEVICE (device)'' w)
      | Some cls \<Rightarrow> call_lib V_get_genicam (get_genicam cls) w)"

text \<open>
  The source's \<^verbatim>\<open>_get_genicam_xml\<close>, the slot \<^verbatim>\<open>arv_device_class_init\<close> installs:
  \<^verbatim>\<open>*size = 0; return NULL;\<close>.
\<close>

definition default_get_genicam_xml :: "addr \<Rightarrow> 't \<Rightarrow> memory \<Rightarrow> cstr \<times> 't \<times> memory" where
  "default_get_genicam_xml size_p l m = (NULL, l, m\<lparr>sizes := (sizes m)(size_p := 0)\<rparr>)"

definition arv_device_get_genicam_xml ::
  "('g, 't) ArvDevice \<Rightarrow> addr option \<Rightarrow> ('n, 't) world \<Rightarrow> cstr \<times> ('n, 't) world" where
  "arv_device_get_genicam_xml device size_p w =
     (case ARV_DEVICE_GET_CLASS device of
        None \<Rightarrow>
          (NULL, g_return_if_fail_warning ''arv_device_get_genicam_xml'' ''ARV_IS_DEVICE (device)'' w)
      | Some cls \<Rightarrow>
          (case size_p of
             None \<Rightarrow>
               (NULL, g_return_if_fail_warning ''arv_device_get_genicam_xml'' ''size != NULL'' w)
           | Some p \<Rightarrow> call_mem V_get_genicam_xml (get_genicam_xml cls p) w))"

text \<open>
  \<^verbatim>\<open>g_signal_emit\<close> for \<^verbatim>\<open>control-lost\<close>, registered \<^verbatim>\<open>G_SIGNAL_RUN_LAST\<close> with the class
  handler at the \<open>control_lost\<close> slot: the connected observers run in order, then the
  class handler if the slot is set.
\<close>

definition g_signal_emit :: "('g, 't) ArvDeviceClass \<Rightarrow> ('n, 't) world \<Rightarrow> ('n, 't) world" where
  "g_signal_emit cls w =
     call_void Signal_emit
       (\<lambda>l. case control_lost cls of
               None \<Rightarrow> fold (\<lambda>h s. h s) (observers w) l
             | Some h \<Rightarrow> h (fold (\<lambda>h s. h s) (observers w) l)) w"

definition arv_device_emit_control_lost_signal ::
  "('g, 't) ArvDevice \<Rightarrow> ('n, 't) world \<Rightarrow> ('n, 't) world" where
  "arv_device_emit_control_lost_signal device w =
     (case ARV_DEVICE_GET_CLASS device of
        None \<Rightarrow>
          g_return_if_fail_warning ''arv_device_emit_control_lost_signal'' ''ARV_IS_DEVICE (device)'' w
      | Some cls \<Rightarrow> g_signal_emit cls w)"

text \<open>
  \<^verbatim>\<open>arv_device_class_init\<close>: the base class installs its default XML accessor; a
  transport's own class initialiser runs afterwards and may replace it. (The function also
  sets \<^verbatim>\<open>finalize\<close> and registers the \<^verbatim>\<open>control-lost\<close> signal; neither is a slot of
  the record.)
\<close>

definition arv_device_class_init :: "('g, 't) ArvDeviceClass \<Rightarrow> ('g, 't) ArvDeviceClass" where
  "arv_device_class_init device_class = device_class\<lparr>get_genicam_xml := default_get_genicam_xml\<rparr>"

section \<open>The feature tree, as this file consumes it\<close>

text \<open>
  \<^verbatim>\<open>arvgc.h\<close> and the node headers: the lookup by name, GObject's instance type checks
  on a node, and the accessors of each node type. A node may pass several type checks
  (GObject interfaces), so the order in which the source tests them is observable. A
  type check reads the instance and changes nothing. Each accessor has the parameter and
  result types of its prototype. The Integer and Enumeration accessors take and return
  \<^verbatim>\<open>gint64\<close>; the Boolean accessors take and return \<^verbatim>\<open>gboolean\<close>, so the C call
  converts: the \<^verbatim>\<open>gint64\<close> argument of a set is cut to its low 32 bits before the
  accessor sees it, and the \<^verbatim>\<open>gboolean\<close> a get returns is sign-extended to
  \<^verbatim>\<open>gint64\<close>.
\<close>

datatype gc_type =
    ARV_TYPE_GC_COMMAND
  | ARV_TYPE_GC_INTEGER
  | ARV_TYPE_GC_FLOAT
  | ARV_TYPE_GC_BOOLEAN
  | ARV_TYPE_GC_ENUMERATION
  | ARV_TYPE_GC_STRING

record ('g, 'n, 't) ArvGc =
  arv_gc_get_node :: "'g \<Rightarrow> cstr \<Rightarrow> 't \<Rightarrow> 'n option \<times> 't"
  node_is_a :: "'n \<Rightarrow> gc_type \<Rightarrow> 't \<Rightarrow> bool"
  arv_gc_command_execute :: "'n \<Rightarrow> 't \<Rightarrow> 't"
  arv_gc_enumeration_set_string_value :: "'n \<Rightarrow> cstr \<Rightarrow> 't \<Rightarrow> 't"
  arv_gc_enumeration_get_string_value :: "'n \<Rightarrow> 't \<Rightarrow> cstr \<times> 't"
  arv_gc_string_set_value :: "'n \<Rightarrow> cstr \<Rightarrow> 't \<Rightarrow> 't"
  arv_gc_string_get_value :: "'n \<Rightarrow> 't \<Rightarrow> cstr \<times> 't"
  arv_gc_integer_set_value :: "'n \<Rightarrow> gint64 \<Rightarrow> 't \<Rightarrow> 't"
  arv_gc_integer_get_value :: "'n \<Rightarrow> 't \<Rightarrow> gint64 \<times> 't"
  arv_gc_integer_get_min :: "'n \<Rightarrow> 't \<Rightarrow> gint64 \<times> 't"
  arv_gc_integer_get_max :: "'n \<Rightarrow> 't \<Rightarrow> gint64 \<times> 't"
  arv_gc_enumeration_set_int_value :: "'n \<Rightarrow> gint64 \<Rightarrow> 't \<Rightarrow> 't"
  arv_gc_enumeration_get_int_value :: "'n \<Rightarrow> 't \<Rightarrow> gint64 \<times> 't"
  arv_gc_boolean_set_value :: "'n \<Rightarrow> gboolean \<Rightarrow> 't \<Rightarrow> 't"
  arv_gc_boolean_get_value :: "'n \<Rightarrow> 't \<Rightarrow> gboolean \<times> 't"
  arv_gc_float_set_value :: "'n \<Rightarrow> gdouble \<Rightarrow> 't \<Rightarrow> 't"
  arv_gc_float_get_value :: "'n \<Rightarrow> 't \<Rightarrow> gdouble \<times> 't"
  arv_gc_float_get_min :: "'n \<Rightarrow> 't \<Rightarrow> gdouble \<times> 't"
  arv_gc_float_get_max :: "'n \<Rightarrow> 't \<Rightarrow> gdouble \<times> 't"

text \<open>
  The checked cast behind \<^verbatim>\<open>if (ARV_IS_GC_X (node)) ... ARV_GC_X (node)\<close>: the node when
  it is a non-null instance of the type, nothing otherwise.
\<close>

definition gc_cast :: "('g, 'n, 't) ArvGc \<Rightarrow> gc_type \<Rightarrow> 'n option \<Rightarrow> 't \<Rightarrow> 'n option" where
  "gc_cast gc T node l =
     (case node of None \<Rightarrow> None | Some n \<Rightarrow> if node_is_a gc n T l then Some n else None)"

abbreviation ARV_GC_COMMAND :: "('g, 'n, 't) ArvGc \<Rightarrow> 'n option \<Rightarrow> 't \<Rightarrow> 'n option" where
  "ARV_GC_COMMAND gc \<equiv> gc_cast gc ARV_TYPE_GC_COMMAND"

abbreviation ARV_GC_INTEGER :: "('g, 'n, 't) ArvGc \<Rightarrow> 'n option \<Rightarrow> 't \<Rightarrow> 'n option" where
  "ARV_GC_INTEGER gc \<equiv> gc_cast gc ARV_TYPE_GC_INTEGER"

abbreviation ARV_GC_FLOAT :: "('g, 'n, 't) ArvGc \<Rightarrow> 'n option \<Rightarrow> 't \<Rightarrow> 'n option" where
  "ARV_GC_FLOAT gc \<equiv> gc_cast gc ARV_TYPE_GC_FLOAT"

abbreviation ARV_GC_BOOLEAN :: "('g, 'n, 't) ArvGc \<Rightarrow> 'n option \<Rightarrow> 't \<Rightarrow> 'n option" where
  "ARV_GC_BOOLEAN gc \<equiv> gc_cast gc ARV_TYPE_GC_BOOLEAN"

abbreviation ARV_GC_ENUMERATION :: "('g, 'n, 't) ArvGc \<Rightarrow> 'n option \<Rightarrow> 't \<Rightarrow> 'n option" where
  "ARV_GC_ENUMERATION gc \<equiv> gc_cast gc ARV_TYPE_GC_ENUMERATION"

abbreviation ARV_GC_STRING :: "('g, 'n, 't) ArvGc \<Rightarrow> 'n option \<Rightarrow> 't \<Rightarrow> 'n option" where
  "ARV_GC_STRING gc \<equiv> gc_cast gc ARV_TYPE_GC_STRING"

definition ARV_IS_GC_NODE_OF :: "('g, 'n, 't) ArvGc \<Rightarrow> gc_type \<Rightarrow> 'n option \<Rightarrow> 't \<Rightarrow> bool" where
  "ARV_IS_GC_NODE_OF gc T node l = (gc_cast gc T node l \<noteq> None)"

abbreviation ARV_IS_GC_COMMAND :: "('g, 'n, 't) ArvGc \<Rightarrow> 'n option \<Rightarrow> 't \<Rightarrow> bool" where
  "ARV_IS_GC_COMMAND gc \<equiv> ARV_IS_GC_NODE_OF gc ARV_TYPE_GC_COMMAND"

abbreviation ARV_IS_GC_INTEGER :: "('g, 'n, 't) ArvGc \<Rightarrow> 'n option \<Rightarrow> 't \<Rightarrow> bool" where
  "ARV_IS_GC_INTEGER gc \<equiv> ARV_IS_GC_NODE_OF gc ARV_TYPE_GC_INTEGER"

abbreviation ARV_IS_GC_FLOAT :: "('g, 'n, 't) ArvGc \<Rightarrow> 'n option \<Rightarrow> 't \<Rightarrow> bool" where
  "ARV_IS_GC_FLOAT gc \<equiv> ARV_IS_GC_NODE_OF gc ARV_TYPE_GC_FLOAT"

abbreviation ARV_IS_GC_BOOLEAN :: "('g, 'n, 't) ArvGc \<Rightarrow> 'n option \<Rightarrow> 't \<Rightarrow> bool" where
  "ARV_IS_GC_BOOLEAN gc \<equiv> ARV_IS_GC_NODE_OF gc ARV_TYPE_GC_BOOLEAN"

abbreviation ARV_IS_GC_ENUMERATION :: "('g, 'n, 't) ArvGc \<Rightarrow> 'n option \<Rightarrow> 't \<Rightarrow> bool" where
  "ARV_IS_GC_ENUMERATION gc \<equiv> ARV_IS_GC_NODE_OF gc ARV_TYPE_GC_ENUMERATION"

abbreviation ARV_IS_GC_STRING :: "('g, 'n, 't) ArvGc \<Rightarrow> 'n option \<Rightarrow> 't \<Rightarrow> bool" where
  "ARV_IS_GC_STRING gc \<equiv> ARV_IS_GC_NODE_OF gc ARV_TYPE_GC_STRING"

section \<open>Access to features by name\<close>

text \<open>
  \<^verbatim>\<open>ARV_IS_GC (genicam)\<close> holds of a non-null tree. \<^verbatim>\<open>arv_device_execute_command\<close>
  resolves the node itself; every other accessor goes through
  \<^verbatim>\<open>arv_device_get_feature\<close>.
\<close>

definition arv_device_execute_command ::
  "('g, 't) ArvDevice \<Rightarrow> ('g, 'n, 't) ArvGc \<Rightarrow> cstr \<Rightarrow> ('n, 't) world \<Rightarrow> ('n, 't) world" where
  "arv_device_execute_command device gc feature w =
     (case arv_device_get_genicam device w of
        (genicam, w1) \<Rightarrow>
          (case genicam of
             None \<Rightarrow>
               g_return_if_fail_warning ''arv_device_execute_command'' ''ARV_IS_GC (genicam)'' w1
           | Some g \<Rightarrow>
               (case call_lib (Gc_get_node feature) (arv_gc_get_node gc g feature) w1 of
                  (node, w2) \<Rightarrow>
                    (case ARV_GC_COMMAND gc node (lib w2) of
                       Some n \<Rightarrow> call_void (Command_execute n) (arv_gc_command_execute gc n) w2
                     | None \<Rightarrow> w2))))"

definition arv_device_get_feature ::
  "('g, 't) ArvDevice \<Rightarrow> ('g, 'n, 't) ArvGc \<Rightarrow> cstr \<Rightarrow> ('n, 't) world
     \<Rightarrow> 'n option \<times> ('n, 't) world" where
  "arv_device_get_feature device gc feature w =
     (case arv_device_get_genicam device w of
        (genicam, w1) \<Rightarrow>
          (case genicam of
             None \<Rightarrow>
               (NULL, g_return_if_fail_warning ''arv_device_get_feature'' ''ARV_IS_GC (genicam)'' w1)
           | Some g \<Rightarrow> call_lib (Gc_get_node feature) (arv_gc_get_node gc g feature) w1))"

definition arv_device_set_string_feature_value ::
  "('g, 't) ArvDevice \<Rightarrow> ('g, 'n, 't) ArvGc \<Rightarrow> cstr \<Rightarrow> cstr \<Rightarrow> ('n, 't) world \<Rightarrow> ('n, 't) world" where
  "arv_device_set_string_feature_value device gc feature v w =
     (case arv_device_get_feature device gc feature w of
        (node, w1) \<Rightarrow>
          (case ARV_GC_ENUMERATION gc node (lib w1) of
             Some n \<Rightarrow>
               call_void (Enumeration_set_string_value n v)
                 (arv_gc_enumeration_set_string_value gc n v) w1
           | None \<Rightarrow>
               (case ARV_GC_STRING gc node (lib w1) of
                  Some n \<Rightarrow> call_void (String_set_value n v) (arv_gc_string_set_value gc n v) w1
                | None \<Rightarrow> w1)))"

definition arv_device_get_string_feature_value ::
  "('g, 't) ArvDevice \<Rightarrow> ('g, 'n, 't) ArvGc \<Rightarrow> cstr \<Rightarrow> ('n, 't) world \<Rightarrow> cstr \<times> ('n, 't) world" where
  "arv_device_get_string_feature_value device gc feature w =
     (case arv_device_get_feature device gc feature w of
        (node, w1) \<Rightarrow>
          (case ARV_GC_ENUMERATION gc node (lib w1) of
             Some n \<Rightarrow>
               call_lib (Enumeration_get_string_value n)
                 (arv_gc_enumeration_get_string_value gc n) w1
           | None \<Rightarrow>
               (case ARV_GC_STRING gc node (lib w1) of
                  Some n \<Rightarrow> call_lib (String_get_value n) (arv_gc_string_get_value gc n) w1
                | None \<Rightarrow> (NULL, w1))))"

definition arv_device_set_integer_feature_value ::
  "('g, 't) ArvDevice \<Rightarrow> ('g, 'n, 't) ArvGc \<Rightarrow> cstr \<Rightarrow> gint64 \<Rightarrow> ('n, 't) world \<Rightarrow> ('n, 't) world" where
  "arv_device_set_integer_feature_value device gc feature v w =
     (case arv_device_get_feature device gc feature w of
        (node, w1) \<Rightarrow>
          (case ARV_GC_INTEGER gc node (lib w1) of
             Some n \<Rightarrow> call_void (Integer_set_value n v) (arv_gc_integer_set_value gc n v) w1
           | None \<Rightarrow>
               (case ARV_GC_ENUMERATION gc node (lib w1) of
                  Some n \<Rightarrow>
                    call_void (Enumeration_set_int_value n v)
                      (arv_gc_enumeration_set_int_value gc n v) w1
                | None \<Rightarrow>
                    (case ARV_GC_BOOLEAN gc node (lib w1) of
                       Some n \<Rightarrow>
                         call_void (Boolean_set_value n (ucast v))
                           (arv_gc_boolean_set_value gc n (ucast v)) w1
                     | None \<Rightarrow> w1))))"

definition arv_device_get_integer_feature_value ::
  "('g, 't) ArvDevice \<Rightarrow> ('g, 'n, 't) ArvGc \<Rightarrow> cstr \<Rightarrow> ('n, 't) world \<Rightarrow> gint64 \<times> ('n, 't) world" where
  "arv_device_get_integer_feature_value device gc feature w =
     (case arv_device_get_feature device gc feature w of
        (node, w1) \<Rightarrow>
          (case ARV_GC_INTEGER gc node (lib w1) of
             Some n \<Rightarrow> call_lib (Integer_get_value n) (arv_gc_integer_get_value gc n) w1
           | None \<Rightarrow>
               (case ARV_GC_ENUMERATION gc node (lib w1) of
                  Some n \<Rightarrow>
                    call_lib (Enumeration_get_int_value n)
                      (arv_gc_enumeration_get_int_value gc n) w1
                | None \<Rightarrow>
                    (case ARV_GC_BOOLEAN gc node (lib w1) of
                       Some n \<Rightarrow>
                         apfst scast
                           (call_lib (Boolean_get_value n) (arv_gc_boolean_get_value gc n) w1)
                     | None \<Rightarrow> (0, w1)))))"

text \<open>Writing through an out-parameter: \<^verbatim>\<open>*p = v\<close>.\<close>

definition store_i64 :: "addr \<Rightarrow> gint64 \<Rightarrow> ('n, 't) world \<Rightarrow> ('n, 't) world" where
  "store_i64 p v w = w\<lparr>heap := (heap w)\<lparr>i64s := (i64s (heap w))(p := v)\<rparr>\<rparr>"

definition store_double :: "addr \<Rightarrow> gdouble \<Rightarrow> ('n, 't) world \<Rightarrow> ('n, 't) world" where
  "store_double p v w = w\<lparr>heap := (heap w)\<lparr>doubles := (doubles (heap w))(p := v)\<rparr>\<rparr>"

definition arv_device_get_integer_feature_bounds ::
  "('g, 't) ArvDevice \<Rightarrow> ('g, 'n, 't) ArvGc \<Rightarrow> cstr \<Rightarrow> addr option \<Rightarrow> addr option
     \<Rightarrow> ('n, 't) world \<Rightarrow> ('n, 't) world" where
  "arv_device_get_integer_feature_bounds device gc feature min_p max_p w =
     (case arv_device_get_feature device gc feature w of
        (node, w1) \<Rightarrow>
          (case ARV_GC_INTEGER gc node (lib w1) of
             None \<Rightarrow> w1
           | Some n \<Rightarrow>
               (let w2 =
                      (case min_p of
                         None \<Rightarrow> w1
                       | Some p \<Rightarrow>
                           (case call_lib (Integer_get_min n) (arv_gc_integer_get_min gc n) w1 of
                              (v, w') \<Rightarrow> store_i64 p v w'))
                in (case max_p of
                      None \<Rightarrow> w2
                    | Some p \<Rightarrow>
                        (case call_lib (Integer_get_max n) (arv_gc_integer_get_max gc n) w2 of
                           (v, w') \<Rightarrow> store_i64 p v w')))))"

definition arv_device_set_float_feature_value ::
  "('g, 't) ArvDevice \<Rightarrow> ('g, 'n, 't) ArvGc \<Rightarrow> cstr \<Rightarrow> gdouble \<Rightarrow> ('n, 't) world \<Rightarrow> ('n, 't) world" where
  "arv_device_set_float_feature_value device gc feature v w =
     (case arv_device_get_feature device gc feature w of
        (node, w1) \<Rightarrow>
          (case ARV_GC_FLOAT gc node (lib w1) of
             Some n \<Rightarrow> call_void (Float_set_value n v) (arv_gc_float_set_value gc n v) w1
           | None \<Rightarrow> w1))"

definition arv_device_get_float_feature_value ::
  "('g, 't) ArvDevice \<Rightarrow> ('g, 'n, 't) ArvGc \<Rightarrow> cstr \<Rightarrow> ('n, 't) world \<Rightarrow> gdouble \<times> ('n, 't) world" where
  "arv_device_get_float_feature_value device gc feature w =
     (case arv_device_get_feature device gc feature w of
        (node, w1) \<Rightarrow>
          (case ARV_GC_FLOAT gc node (lib w1) of
             Some n \<Rightarrow> call_lib (Float_get_value n) (arv_gc_float_get_value gc n) w1
           | None \<Rightarrow> (zero_double, w1)))"

definition arv_device_get_float_feature_bounds ::
  "('g, 't) ArvDevice \<Rightarrow> ('g, 'n, 't) ArvGc \<Rightarrow> cstr \<Rightarrow> addr option \<Rightarrow> addr option
     \<Rightarrow> ('n, 't) world \<Rightarrow> ('n, 't) world" where
  "arv_device_get_float_feature_bounds device gc feature min_p max_p w =
     (case arv_device_get_feature device gc feature w of
        (node, w1) \<Rightarrow>
          (case ARV_GC_FLOAT gc node (lib w1) of
             None \<Rightarrow> w1
           | Some n \<Rightarrow>
               (let w2 =
                      (case min_p of
                         None \<Rightarrow> w1
                       | Some p \<Rightarrow>
                           (case call_lib (Float_get_min n) (arv_gc_float_get_min gc n) w1 of
                              (v, w') \<Rightarrow> store_double p v w'))
                in (case max_p of
                      None \<Rightarrow> w2
                    | Some p \<Rightarrow>
                        (case call_lib (Float_get_max n) (arv_gc_float_get_max gc n) w2 of
                           (v, w') \<Rightarrow> store_double p v w')))))"

section \<open>A camera modelled from the specification\<close>

text \<open>
  Modelled from the spec: the feature node (\<^verbatim>\<open>arvgcinteger.c\<close>, \<^verbatim>\<open>arvgcfloat.c\<close>,
  \<^verbatim>\<open>arvgcboolean.c\<close>, \<^verbatim>\<open>arvgcenumeration.c\<close>, \<^verbatim>\<open>arvgcstring.c\<close> and
  \<^verbatim>\<open>arvgccommand.c\<close> are not among the sources). A node is one of six variants; the
  numeric ones hold a value and an inclusive bound (value, min, max); an enumeration holds
  its symbolic entries and its current integer value; a command counts its executions.
\<close>

datatype spec_node =
    Integer_node gint64 gint64 gint64
  | Float_node gdouble gdouble gdouble
  | Boolean_node bool
  | Enumeration_node "(string \<times> gint64) list" gint64
  | String_node string
  | Command_node nat

text \<open>
  Modelled from the spec: the state behind a device (the transports and \<^verbatim>\<open>arvgc.c\<close>
  are not among the sources): its feature tree, a map from feature name to node, absent
  while the device has no valid tree; its registers; its memory.
\<close>

record camera =
  feature_tree :: "(string \<Rightarrow> spec_node option) option"
  registers :: "guint32 \<Rightarrow> guint32"
  device_memory :: "nat \<Rightarrow> 8 word"

text \<open>Modelled from the spec: the variant of a node (the node classes are missing).\<close>

fun variant :: "spec_node \<Rightarrow> gc_type" where
  "variant (Integer_node _ _ _) = ARV_TYPE_GC_INTEGER"
| "variant (Float_node _ _ _) = ARV_TYPE_GC_FLOAT"
| "variant (Boolean_node _) = ARV_TYPE_GC_BOOLEAN"
| "variant (Enumeration_node _ _) = ARV_TYPE_GC_ENUMERATION"
| "variant (String_node _) = ARV_TYPE_GC_STRING"
| "variant (Command_node _) = ARV_TYPE_GC_COMMAND"

text \<open>
  Modelled from the spec: the lookup of the feature tree (\<^verbatim>\<open>arv_gc_get_node\<close> is
  missing): the node of that name, nothing when the name is unknown or there is no tree.
\<close>

definition node_at :: "camera \<Rightarrow> string \<Rightarrow> spec_node option" where
  "node_at l name = (case feature_tree l of None \<Rightarrow> None | Some t \<Rightarrow> t name)"

text \<open>
  Modelled from the spec: a write to the node of a name (the node classes are missing);
  it leaves every other node, and a tree without that name, as they are.
\<close>

definition update_node :: "string \<Rightarrow> (spec_node \<Rightarrow> spec_node) \<Rightarrow> camera \<Rightarrow> camera" where
  "update_node name f l =
     (case feature_tree l of
        None \<Rightarrow> l
      | Some t \<Rightarrow>
          (case t name of
             None \<Rightarrow> l
           | Some nd \<Rightarrow> l\<lparr>feature_tree := Some (t(name := Some (f nd)))\<rparr>))"

text \<open>
  Modelled from the spec: integer access to an Integer and to an Enumeration node (the
  accessors of the node classes are missing). Integer: direct. Enumeration: the
  underlying integer value. The first argument is the accessor's own node type; on a node
  of another variant it does nothing and reads 0.
\<close>

fun node_set_int :: "gc_type \<Rightarrow> gint64 \<Rightarrow> spec_node \<Rightarrow> spec_node" where
  "node_set_int ARV_TYPE_GC_INTEGER v (Integer_node _ lo hi) = Integer_node v lo hi"
| "node_set_int ARV_TYPE_GC_ENUMERATION v (Enumeration_node es _) = Enumeration_node es v"
| "node_set_int _ _ nd = nd"

fun node_get_int :: "gc_type \<Rightarrow> spec_node \<Rightarrow> gint64" where
  "node_get_int ARV_TYPE_GC_INTEGER (Integer_node v _ _) = v"
| "node_get_int ARV_TYPE_GC_ENUMERATION (Enumeration_node _ v) = v"
| "node_get_int _ _ = 0"

text \<open>
  Modelled from the spec: access to a Boolean node (the accessors of \<^verbatim>\<open>arvgcboolean.c\<close>
  are missing), on the \<^verbatim>\<open>gboolean\<close> the accessor is handed: nonzero sets true, and the
  value reads back as 0 or 1.
\<close>

fun node_set_boolean :: "gboolean \<Rightarrow> spec_node \<Rightarrow> spec_node" where
  "node_set_boolean b (Boolean_node _) = Boolean_node (b \<noteq> 0)"
| "node_set_boolean _ nd = nd"

fun node_get_boolean :: "spec_node \<Rightarrow> gboolean" where
  "node_get_boolean (Boolean_node b) = (if b then 1 else 0)"
| "node_get_boolean _ = 0"

text \<open>Modelled from the spec: the inclusive bounds of an Integer node (accessors missing).\<close>

fun node_int_min :: "spec_node \<Rightarrow> gint64" where
  "node_int_min (Integer_node _ lo _) = lo"
| "node_int_min _ = 0"

fun node_int_max :: "spec_node \<Rightarrow> gint64" where
  "node_int_max (Integer_node _ _ hi) = hi"
| "node_int_max _ = 0"

text \<open>
  Modelled from the spec: float access, defined for the Float variant only (the accessors
  of \<^verbatim>\<open>arvgcfloat.c\<close> are missing); component 0 is the value, 1 the minimum, 2 the
  maximum.
\<close>

fun node_set_float :: "gdouble \<Rightarrow> spec_node \<Rightarrow> spec_node" where
  "node_set_float v (Float_node _ lo hi) = Float_node v lo hi"
| "node_set_float _ nd = nd"

fun node_get_float :: "nat \<Rightarrow> spec_node \<Rightarrow> gdouble" where
  "node_get_float k (Float_node v lo hi) = (if k = 0 then v else if k = 1 then lo else hi)"
| "node_get_float _ _ = zero_double"

text \<open>
  Modelled from the spec: string access (the accessors of \<^verbatim>\<open>arvgcenumeration.c\<close> and
  \<^verbatim>\<open>arvgcstring.c\<close> are missing). Enumeration: by symbolic string, through the entries;
  String: the raw string. The spec does not say what an unknown symbol or a null string
  does: here nothing, and a current value with no entry reads as \<open>NULL\<close>.
\<close>

fun node_set_string :: "gc_type \<Rightarrow> cstr \<Rightarrow> spec_node \<Rightarrow> spec_node" where
  "node_set_string ARV_TYPE_GC_ENUMERATION (Some s) (Enumeration_node es v) =
     (case map_of es s of None \<Rightarrow> Enumeration_node es v | Some v' \<Rightarrow> Enumeration_node es v')"
| "node_set_string ARV_TYPE_GC_STRING (Some s) (String_node _) = String_node s"
| "node_set_string _ _ nd = nd"

fun node_get_string :: "gc_type \<Rightarrow> spec_node \<Rightarrow> cstr" where
  "node_get_string ARV_TYPE_GC_ENUMERATION (Enumeration_node es v) =
     map_option fst (find (\<lambda>e. snd e = v) es)"
| "node_get_string ARV_TYPE_GC_STRING (String_node s) = Some s"
| "node_get_string _ _ = NULL"

text \<open>Modelled from the spec: executing a Command node (\<^verbatim>\<open>arvgccommand.c\<close> is missing).\<close>

fun node_execute :: "spec_node \<Rightarrow> spec_node" where
  "node_execute (Command_node k) = Command_node (Suc k)"
| "node_execute nd = nd"

text \<open>
  Modelled from the spec: the value an accessor reads from the node of a name, with a default
  for a name that has no node (the node classes are missing).
\<close>

definition read_node :: "string \<Rightarrow> (spec_node \<Rightarrow> 'r) \<Rightarrow> 'r \<Rightarrow> camera \<Rightarrow> 'r \<times> camera" where
  "read_node name f d l = (case node_at l name of None \<Rightarrow> (d, l) | Some nd \<Rightarrow> (f nd, l))"

text \<open>
  Modelled from the spec: the feature tree's interface over that state (\<^verbatim>\<open>arvgc.c\<close> and
  the node classes are missing). A node is referred to by its name; a tree by \<open>()\<close>, as a
  device owns exactly one. Each node passes the type check of its variant only.
\<close>

definition spec_gc :: "(unit, string, camera) ArvGc" where
  "spec_gc =
     \<lparr> arv_gc_get_node =
         (\<lambda>g feature l.
            (case feature of
               None \<Rightarrow> (NULL, l)
             | Some name \<Rightarrow>
                 (case node_at l name of None \<Rightarrow> (NULL, l) | Some nd \<Rightarrow> (Some name, l)))),
       node_is_a =
         (\<lambda>name T l. case node_at l name of None \<Rightarrow> False | Some nd \<Rightarrow> variant nd = T),
       arv_gc_command_execute = (\<lambda>name. update_node name node_execute),
       arv_gc_enumeration_set_string_value =
         (\<lambda>name s. update_node name (node_set_string ARV_TYPE_GC_ENUMERATION s)),
       arv_gc_enumeration_get_string_value =
         (\<lambda>name. read_node name (node_get_string ARV_TYPE_GC_ENUMERATION) NULL),
       arv_gc_string_set_value =
         (\<lambda>name s. update_node name (node_set_string ARV_TYPE_GC_STRING s)),
       arv_gc_string_get_value =
         (\<lambda>name. read_node name (node_get_string ARV_TYPE_GC_STRING) NULL),
       arv_gc_integer_set_value =
         (\<lambda>name v. update_node name (node_set_int ARV_TYPE_GC_INTEGER v)),
       arv_gc_integer_get_value = (\<lambda>name. read_node name (node_get_int ARV_TYPE_GC_INTEGER) 0),
       arv_gc_integer_get_min = (\<lambda>name. read_node name node_int_min 0),
       arv_gc_integer_get_max = (\<lambda>name. read_node name node_int_max 0),
       arv_gc_enumeration_set_int_value =
         (\<lambda>name v. update_node name (node_set_int ARV_TYPE_GC_ENUMERATION v)),
       arv_gc_enumeration_get_int_value =
         (\<lambda>name. read_node name (node_get_int ARV_TYPE_GC_ENUMERATION) 0),
       arv_gc_boolean_set_value = (\<lambda>name b. update_node name (node_set_boolean b)),
       arv_gc_boolean_get_value = (\<lambda>name. read_node name node_get_boolean 0),
       arv_gc_float_set_value = (\<lambda>name v. update_node name (node_set_float v)),
       arv_gc_float_get_value = (\<lambda>name. read_node name (node_get_float 0) zero_double),
       arv_gc_float_get_min = (\<lambda>name. read_node name (node_get_float 1) zero_double),
       arv_gc_float_get_max = (\<lambda>name. read_node name (node_get_float 2) zero_double) \<rparr>"

text \<open>
  Modelled from the spec: a transport (the transports are not among the sources). Register
  and memory access act on the camera's registers and memory and succeed; a stream is
  always established (handle 1); the feature tree is returned when the camera has one. The
  record under \<^verbatim>\<open>arv_device_class_init\<close> is the class structure as allocated; the
  transport does not override the XML slot, so it is the one the base class installs.
\<close>

definition camera_class :: "(unit, camera) ArvDeviceClass" where
  "camera_class =
     arv_device_class_init
       \<lparr> create_stream = (\<lambda>callback user_data l m. (Some 1, l, m)),
         read_memory =
           (\<lambda>a n b l m.
              (True, l,
               m\<lparr>bytes :=
                    (\<lambda>i. if b \<le> i \<and> i < b + unat n then device_memory l (unat a + (i - b))
                          else bytes m i)\<rparr>)),
         write_memory =
           (\<lambda>a n b l m.
              (True,
               l\<lparr>device_memory :=
                    (\<lambda>i. if unat a \<le> i \<and> i < unat a + unat n then bytes m (b + (i - unat a))
                          else device_memory l i)\<rparr>,
               m)),
         read_register = (\<lambda>a p l m. (True, l, m\<lparr>u32s := (u32s m)(p := registers l a)\<rparr>)),
         write_register = (\<lambda>a v l. (True, l\<lparr>registers := (registers l)(a := v)\<rparr>)),
         get_genicam = (\<lambda>l. (map_option (\<lambda>t. ()) (feature_tree l), l)),
         get_genicam_xml = (\<lambda>p l m. (NULL, l, m)),
         control_lost = None \<rparr>"

section \<open>A concrete camera for the worked examples\<close>

definition example_tree :: "string \<Rightarrow> spec_node option" where
  "example_tree =
     (\<lambda>name.
        if name = ''Width'' then Some (Integer_node 640 16 1920)
        else if name = ''PixelFormat''
          then Some (Enumeration_node [(''Mono8'', 0), (''RGB8'', 1)] 0)
        else if name = ''ReverseX'' then Some (Boolean_node False)
        else if name = ''Gain'' then Some (Float_node (Double 0) (Double 0) (Double 1))
        else if name = ''DeviceID'' then Some (String_node ''cam0'')
        else if name = ''AcquisitionStart'' then Some (Command_node 0)
        else None)"

definition example_camera :: camera where
  "example_camera =
     \<lparr> feature_tree = Some example_tree, registers = (\<lambda>a. 0), device_memory = (\<lambda>i. 0) \<rparr>"

definition example_world :: "(string, camera) world" where
  "example_world =
     \<lparr> lib = example_camera,
       heap = \<lparr> bytes = (\<lambda>i. 0), u32s = (\<lambda>i. 0), sizes = (\<lambda>i. 7), i64s = (\<lambda>i. 7),
                doubles = (\<lambda>i. Double 7) \<rparr>,
       calls = [], criticals = [], observers = [] \<rparr>"

definition example_device :: "(unit, camera) ArvDevice" where
  "example_device = Some (ArvDevice_instance camera_class)"

text \<open>
  A node library whose nodes pass every type check, as a node implementing several
  interfaces would: it makes the order of the checks visible.
\<close>

definition permissive_gc :: "(unit, string, camera) ArvGc" where
  "permissive_gc = spec_gc\<lparr>node_is_a := (\<lambda>name T l. True)\<rparr>"

section \<open>The lookup\<close>

text \<open>
  The lookup never touches the caller's memory, and the only calls it makes are the
  class's \<^verbatim>\<open>get_genicam\<close> and, when that gave a tree, the tree's \<^verbatim>\<open>arv_gc_get_node\<close>.
\<close>

lemma get_feature_heap:
  "arv_device_get_feature device gc feature w = (node, w1) \<Longrightarrow> heap w1 = heap w"
  by (auto simp: arv_device_get_feature_def arv_device_get_genicam_def call_lib_def
        g_return_if_fail_warning_def split: option.splits prod.splits)

lemma get_feature_calls:
  "arv_device_get_feature device gc feature w = (node, w1) \<Longrightarrow>
     calls w1 = calls w \<or> calls w1 = calls w @ [V_get_genicam]
       \<or> calls w1 = calls w @ [V_get_genicam, Gc_get_node feature]"
  by (auto simp: arv_device_get_feature_def arv_device_get_genicam_def call_lib_def
        g_return_if_fail_warning_def split: option.splits prod.splits)

text \<open>The example camera: what the lookup gives for a name, and the checks its nodes pass.\<close>

lemma example_lookup:
  "arv_device_get_feature example_device spec_gc (Some name) example_world
     = ((if example_tree name = None then NULL else Some name),
        example_world\<lparr>calls := [V_get_genicam, Gc_get_node (Some name)]\<rparr>)"
  by (simp add: arv_device_get_feature_def arv_device_get_genicam_def call_lib_def
        example_device_def example_world_def example_camera_def camera_class_def
        arv_device_class_init_def spec_gc_def node_at_def split: option.splits)

lemma example_lookup_permissive:
  "arv_device_get_feature example_device permissive_gc (Some name) example_world
     = ((if example_tree name = None then NULL else Some name),
        example_world\<lparr>calls := [V_get_genicam, Gc_get_node (Some name)]\<rparr>)"
  by (simp add: arv_device_get_feature_def arv_device_get_genicam_def call_lib_def
        example_device_def example_world_def example_camera_def camera_class_def
        arv_device_class_init_def permissive_gc_def spec_gc_def node_at_def
        split: option.splits)

lemma example_is_a:
  "ARV_IS_GC_NODE_OF spec_gc T (Some name) example_camera
     = (case example_tree name of None \<Rightarrow> False | Some nd \<Rightarrow> variant nd = T)"
  by (simp add: ARV_IS_GC_NODE_OF_def gc_cast_def spec_gc_def node_at_def example_camera_def
        split: option.splits)

lemma example_is_a_permissive:
  "ARV_IS_GC_NODE_OF permissive_gc T (Some name) l"
  by (simp add: ARV_IS_GC_NODE_OF_def gc_cast_def permissive_gc_def)

lemma null_is_no_node:
  "\<not> ARV_IS_GC_NODE_OF gc T NULL l"
  by (simp add: ARV_IS_GC_NODE_OF_def gc_cast_def)

lemma example_world_fields:
  "lib example_world = example_camera" "calls example_world = []"
  "criticals example_world = []" "observers example_world = []"
  by (simp_all add: example_world_def)

lemma example_device_class:
  "ARV_DEVICE_GET_CLASS example_device = Some camera_class"
  by (simp add: example_device_def)

lemma example_lookup_absent:
  "example_tree name = None \<Longrightarrow>
     arv_device_get_feature example_device spec_gc (Some name) example_world
       = (NULL, example_world\<lparr>calls := [V_get_genicam, Gc_get_node (Some name)]\<rparr>)"
  by (simp add: example_lookup)

lemma lookup_on_null_device:
  "arv_device_get_feature NULL gc feature w
     = (NULL, w\<lparr>criticals := criticals w @
          [(''arv_device_get_genicam'', ''ARV_IS_DEVICE (device)''),
           (''arv_device_get_feature'', ''ARV_IS_GC (genicam)'')]\<rparr>)"
  by (simp add: arv_device_get_feature_def arv_device_get_genicam_def g_return_if_fail_warning_def)

lemma spec_gc_execute:
  "arv_gc_command_execute spec_gc name = update_node name node_execute"
  by (simp add: spec_gc_def)

section \<open>Guards of the register, memory and stream layer\<close>

text \<open>
  C3. \<^verbatim>\<open>arv_device_read_memory\<close> and \<^verbatim>\<open>arv_device_write_memory\<close>, called with
  \<^verbatim>\<open>size == 0\<close> or with a null buffer, return \<open>FALSE\<close> at once, for every device, address
  and transport. The world they return is the one they were given but for one critical
  warning in GLib's log: the state of the transport, the caller's memory and the record
  of outgoing calls are the same, so the transport's \<^verbatim>\<open>read_memory\<close> or
  \<^verbatim>\<open>write_memory\<close> was not invoked.
\<close>

theorem memory_access_rejects_empty_request:
  assumes "sz = 0 \<or> buffer = NULL"
  shows "(\<exists>c. arv_device_read_memory device address sz buffer w
            = (False, w\<lparr>criticals := criticals w @ [c]\<rparr>))
       \<and> (\<exists>c. arv_device_write_memory device address sz buffer w
            = (False, w\<lparr>criticals := criticals w @ [c]\<rparr>))"
  using assms
  by (auto simp: arv_device_read_memory_def arv_device_write_memory_def
        g_return_if_fail_warning_def split: option.splits)

theorem memory_access_rejects_empty_request_witness:
  "((0 :: guint32) = 0 \<or> Some (64 :: addr) = NULL)
 \<and> (\<exists>c. arv_device_read_memory example_device 256 0 (Some 64) example_world
        = (False, example_world\<lparr>criticals := criticals example_world @ [c]\<rparr>))
 \<and> ((16 :: guint32) = 0 \<or> (NULL :: addr option) = NULL)
 \<and> (\<exists>c. arv_device_write_memory example_device 256 16 NULL example_world
        = (False, example_world\<lparr>criticals := criticals example_world @ [c]\<rparr>))"
  using memory_access_rejects_empty_request [where sz = 0 and buffer = "Some 64"
      and device = example_device and address = 256 and w = example_world]
    memory_access_rejects_empty_request [where sz = 16 and buffer = NULL
      and device = example_device and address = 256 and w = example_world]
  by simp

text \<open>
  C4. Each of the eight public operations, given a handle that is null or is not a
  device, returns its sentinel (\<open>NULL\<close>, \<open>FALSE\<close>, or nothing) whatever the other
  arguments are. The world is the given one plus the critical warning of the failed
  \<^verbatim>\<open>ARV_IS_DEVICE\<close> check: no virtual method was reached, the signal was not emitted.
\<close>

theorem invalid_handle_fails_fast:
  assumes "\<not> ARV_IS_DEVICE device"
  shows "arv_device_create_stream device callback user_data w
           = (NULL, w\<lparr>criticals := criticals w @
                [(''arv_device_create_stream'', ''ARV_IS_DEVICE (device)'')]\<rparr>)
       \<and> arv_device_read_memory device address sz buffer w
           = (False, w\<lparr>criticals := criticals w @
                [(''arv_device_read_memory'', ''ARV_IS_DEVICE (device)'')]\<rparr>)
       \<and> arv_device_write_memory device address sz buffer w
           = (False, w\<lparr>criticals := criticals w @
                [(''arv_device_write_memory'', ''ARV_IS_DEVICE (device)'')]\<rparr>)
       \<and> arv_device_read_register device address val_p w
           = (False, w\<lparr>criticals := criticals w @
                [(''arv_device_read_register'', ''ARV_IS_DEVICE (device)'')]\<rparr>)
       \<and> arv_device_write_register device address v w
           = (False, w\<lparr>criticals := criticals w @
                [(''arv_device_write_register'', ''ARV_IS_DEVICE (device)'')]\<rparr>)
       \<and> arv_device_get_genicam device w
           = (NULL, w\<lparr>criticals := criticals w @
                [(''arv_device_get_genicam'', ''ARV_IS_DEVICE (device)'')]\<rparr>)
       \<and> arv_device_get_genicam_xml device size_p w
           = (NULL, w\<lparr>criticals := criticals w @
                [(''arv_device_get_genicam_xml'', ''ARV_IS_DEVICE (device)'')]\<rparr>)
       \<and> arv_device_emit_control_lost_signal device w
           = w\<lparr>criticals := criticals w @
                [(''arv_device_emit_control_lost_signal'', ''ARV_IS_DEVICE (device)'')]\<rparr>"
  using assms
  by (simp add: ARV_IS_DEVICE_def arv_device_create_stream_def arv_device_read_memory_def
        arv_device_write_memory_def arv_device_read_register_def arv_device_write_register_def
        arv_device_get_genicam_def arv_device_get_genicam_xml_def
        arv_device_emit_control_lost_signal_def g_return_if_fail_warning_def)

theorem invalid_handle_fails_fast_witness:
  "\<not> ARV_IS_DEVICE (Some Other_instance :: (unit, camera) ArvDevice)
 \<and> arv_device_read_register (Some Other_instance :: (unit, camera) ArvDevice) 4096 (Some 8)
      example_world
     = (False, example_world\<lparr>criticals :=
          [(''arv_device_read_register'', ''ARV_IS_DEVICE (device)'')]\<rparr>)
 \<and> \<not> ARV_IS_DEVICE (NULL :: (unit, camera) ArvDevice)
 \<and> arv_device_create_stream (NULL :: (unit, camera) ArvDevice) (Some 1) (Some 2) example_world
     = (NULL, example_world\<lparr>criticals :=
          [(''arv_device_create_stream'', ''ARV_IS_DEVICE (device)'')]\<rparr>)
 \<and> arv_device_emit_control_lost_signal (NULL :: (unit, camera) ArvDevice) example_world
     = example_world\<lparr>criticals :=
          [(''arv_device_emit_control_lost_signal'', ''ARV_IS_DEVICE (device)'')]\<rparr>"
proof -
  have other: "\<not> ARV_IS_DEVICE (Some Other_instance :: (unit, camera) ArvDevice)"
    and null: "\<not> ARV_IS_DEVICE (NULL :: (unit, camera) ArvDevice)"
    by (simp_all add: ARV_IS_DEVICE_def)
  show ?thesis
    using other null
      invalid_handle_fails_fast [OF other, where address = 4096 and val_p = "Some 8"
        and w = example_world]
      invalid_handle_fails_fast [OF null, where callback = "Some 1" and user_data = "Some 2"
        and w = example_world]
    by (simp add: example_world_fields)
qed

text \<open>
  C10. On a valid device, \<^verbatim>\<open>arv_device_read_register\<close> with a null \<^verbatim>\<open>value\<close> pointer
  returns \<open>FALSE\<close> and \<^verbatim>\<open>arv_device_get_genicam_xml\<close> with a null \<^verbatim>\<open>size\<close> pointer
  returns \<open>NULL\<close>; in both the world gains only the critical warning of the failed check,
  so the transport's \<^verbatim>\<open>read_register\<close> and its XML accessor were not invoked.
\<close>

theorem null_out_pointer_rejected:
  assumes "ARV_IS_DEVICE device"
  shows "arv_device_read_register device address NULL w
           = (False, w\<lparr>criticals := criticals w @
                [(''arv_device_read_register'', ''value != NULL'')]\<rparr>)
       \<and> arv_device_get_genicam_xml device NULL w
           = (NULL, w\<lparr>criticals := criticals w @
                [(''arv_device_get_genicam_xml'', ''size != NULL'')]\<rparr>)"
  using assms
  by (auto simp: ARV_IS_DEVICE_def arv_device_read_register_def arv_device_get_genicam_xml_def
        g_return_if_fail_warning_def)

theorem null_out_pointer_rejected_witness:
  "ARV_IS_DEVICE example_device
 \<and> arv_device_read_register example_device 4096 NULL example_world
     = (False, example_world\<lparr>criticals := [(''arv_device_read_register'', ''value != NULL'')]\<rparr>)
 \<and> arv_device_get_genicam_xml example_device NULL example_world
     = (NULL, example_world\<lparr>criticals := [(''arv_device_get_genicam_xml'', ''size != NULL'')]\<rparr>)"
proof -
  have d: "ARV_IS_DEVICE example_device"
    by (simp add: ARV_IS_DEVICE_def example_device_class)
  show ?thesis
    using d null_out_pointer_rejected [OF d, where address = 4096 and w = example_world]
    by (simp add: example_world_fields)
qed

text \<open>
  C5. When the XML slot of a device's class is the one \<^verbatim>\<open>arv_device_class_init\<close>
  installs (the transport did not override it), \<^verbatim>\<open>arv_device_get_genicam_xml\<close> with a
  size output returns the null pointer and stores 0 in the size output. Nothing else
  changes but the record of the call, and no critical warning is logged: it is the
  default's answer, not a failed check.
\<close>

theorem default_genicam_xml_is_empty:
  assumes "ARV_DEVICE_GET_CLASS device = Some cls"
    and "get_genicam_xml cls = get_genicam_xml (arv_device_class_init cls)"
  shows "arv_device_get_genicam_xml device (Some p) w
           = (NULL, w\<lparr>heap := (heap w)\<lparr>sizes := (sizes (heap w))(p := 0)\<rparr>,
                      calls := calls w @ [V_get_genicam_xml]\<rparr>)
       \<and> sizes (heap (snd (arv_device_get_genicam_xml device (Some p) w))) p = 0
       \<and> criticals (snd (arv_device_get_genicam_xml device (Some p) w)) = criticals w"
  using assms
  by (simp add: arv_device_get_genicam_xml_def arv_device_class_init_def call_mem_def
        default_get_genicam_xml_def)

theorem default_genicam_xml_is_empty_witness:
  "ARV_DEVICE_GET_CLASS example_device = Some camera_class
 \<and> get_genicam_xml camera_class = get_genicam_xml (arv_device_class_init camera_class)
 \<and> sizes (heap example_world) 3 = 7
 \<and> fst (arv_device_get_genicam_xml example_device (Some 3) example_world) = NULL
 \<and> sizes (heap (snd (arv_device_get_genicam_xml example_device (Some 3) example_world))) 3 = 0
 \<and> criticals (snd (arv_device_get_genicam_xml example_device (Some 3) example_world)) = []"
proof -
  have slot: "get_genicam_xml camera_class = get_genicam_xml (arv_device_class_init camera_class)"
    by (simp add: camera_class_def arv_device_class_init_def)
  have before: "sizes (heap example_world) 3 = 7"
    by (simp add: example_world_def)
  show ?thesis
    using slot before
      default_genicam_xml_is_empty [OF example_device_class slot, where p = 3
        and w = example_world]
    by (simp add: example_world_fields example_device_class)
qed

section \<open>Dispatch on the node's type\<close>

text \<open>
  In the statements below \<open>(node, w1)\<close> is what the lookup \<^verbatim>\<open>arv_device_get_feature\<close>
  returns: the node the name resolves to (\<open>NULL\<close> when the device is invalid, has no tree,
  or the tree has no such name) and the world after the lookup. The type checks are read
  in that world, as the source does.
\<close>

text \<open>
  C1. \<^verbatim>\<open>arv_device_set_integer_feature_value\<close> and
  \<^verbatim>\<open>arv_device_get_integer_feature_value\<close> test the resolved node against Integer, then
  Enumeration, then Boolean, and use the accessor of the first type that matches: a node
  that is an Integer gets the Integer accessor whatever else it is, the Enumeration
  accessor needs the Integer check to have failed, the Boolean accessor both. Exactly one
  accessor is called, on the world the lookup left. The Integer and Enumeration accessors
  receive the value as given; the Boolean set accessor receives it converted to
  \<^verbatim>\<open>gboolean\<close> (its low 32 bits), and what the Boolean get accessor returns is
  sign-extended. When none of the three matches (a Float, String or Command node, or no
  node) the set returns the lookup's world and the get returns 0 with the lookup's world:
  no accessor is called and nothing is logged.
\<close>

theorem integer_feature_dispatch_order:
  assumes "arv_device_get_feature device gc feature w = (node, w1)"
  shows
    "(ARV_IS_GC_INTEGER gc node (lib w1) \<longrightarrow>
        (\<exists>n. node = Some n
           \<and> arv_device_set_integer_feature_value device gc feature v w
               = call_void (Integer_set_value n v) (arv_gc_integer_set_value gc n v) w1
           \<and> arv_device_get_integer_feature_value device gc feature w
               = call_lib (Integer_get_value n) (arv_gc_integer_get_value gc n) w1))
   \<and> (\<not> ARV_IS_GC_INTEGER gc node (lib w1) \<and> ARV_IS_GC_ENUMERATION gc node (lib w1) \<longrightarrow>
        (\<exists>n. node = Some n
           \<and> arv_device_set_integer_feature_value device gc feature v w
               = call_void (Enumeration_set_int_value n v)
                   (arv_gc_enumeration_set_int_value gc n v) w1
           \<and> arv_device_get_integer_feature_value device gc feature w
               = call_lib (Enumeration_get_int_value n)
                   (arv_gc_enumeration_get_int_value gc n) w1))
   \<and> (\<not> ARV_IS_GC_INTEGER gc node (lib w1) \<and> \<not> ARV_IS_GC_ENUMERATION gc node (lib w1)
        \<and> ARV_IS_GC_BOOLEAN gc node (lib w1) \<longrightarrow>
        (\<exists>n. node = Some n
           \<and> arv_device_set_integer_feature_value device gc feature v w
               = call_void (Boolean_set_value n (ucast v))
                   (arv_gc_boolean_set_value gc n (ucast v)) w1
           \<and> arv_device_get_integer_feature_value device gc feature w
               = apfst scast
                   (call_lib (Boolean_get_value n) (arv_gc_boolean_get_value gc n) w1)))
   \<and> (\<not> ARV_IS_GC_INTEGER gc node (lib w1) \<and> \<not> ARV_IS_GC_ENUMERATION gc node (lib w1)
        \<and> \<not> ARV_IS_GC_BOOLEAN gc node (lib w1) \<longrightarrow>
        arv_device_set_integer_feature_value device gc feature v w = w1
        \<and> arv_device_get_integer_feature_value device gc feature w = (0, w1))"
  using assms
  by (auto simp: arv_device_set_integer_feature_value_def arv_device_get_integer_feature_value_def
        ARV_IS_GC_NODE_OF_def gc_cast_def split: option.splits if_splits)

text \<open>
  On the example camera: an Integer, an Enumeration and a Boolean node each get their own
  accessor; an Enumeration node that also passes the Integer check gets the Integer one;
  the Boolean set accessor is handed 0 when the value is \<open>2 ^ 32\<close>; on the Float node
  \<open>Gain\<close> the set changes nothing and the get returns 0.
\<close>

theorem integer_feature_dispatch_order_witness:
  "calls (arv_device_set_integer_feature_value example_device spec_gc (Some ''Width'') 800
      example_world)
     = [V_get_genicam, Gc_get_node (Some ''Width''), Integer_set_value ''Width'' 800]
 \<and> calls (arv_device_set_integer_feature_value example_device permissive_gc
      (Some ''PixelFormat'') 1 example_world)
     = [V_get_genicam, Gc_get_node (Some ''PixelFormat''), Integer_set_value ''PixelFormat'' 1]
 \<and> calls (arv_device_set_integer_feature_value example_device spec_gc (Some ''PixelFormat'') 1
      example_world)
     = [V_get_genicam, Gc_get_node (Some ''PixelFormat''),
        Enumeration_set_int_value ''PixelFormat'' 1]
 \<and> calls (snd (arv_device_get_integer_feature_value example_device spec_gc (Some ''ReverseX'')
      example_world))
     = [V_get_genicam, Gc_get_node (Some ''ReverseX''), Boolean_get_value ''ReverseX'']
 \<and> calls (arv_device_set_integer_feature_value example_device spec_gc (Some ''ReverseX'')
      4294967296 example_world)
     = [V_get_genicam, Gc_get_node (Some ''ReverseX''), Boolean_set_value ''ReverseX'' 0]
 \<and> arv_device_set_integer_feature_value example_device spec_gc (Some ''Gain'') 5 example_world
     = example_world\<lparr>calls := [V_get_genicam, Gc_get_node (Some ''Gain'')]\<rparr>
 \<and> arv_device_get_integer_feature_value example_device spec_gc (Some ''Gain'') example_world
     = (0, example_world\<lparr>calls := [V_get_genicam, Gc_get_node (Some ''Gain'')]\<rparr>)"
  using integer_feature_dispatch_order [OF example_lookup [where name = "''Width''"],
      where v = 800]
    integer_feature_dispatch_order [OF example_lookup_permissive [where name = "''PixelFormat''"],
      where v = 1]
    integer_feature_dispatch_order [OF example_lookup [where name = "''PixelFormat''"],
      where v = 1]
    integer_feature_dispatch_order [OF example_lookup [where name = "''ReverseX''"],
      where v = 4294967296]
    integer_feature_dispatch_order [OF example_lookup [where name = "''Gain''"], where v = 5]
  by (simp add: example_is_a example_is_a_permissive example_tree_def example_world_fields
        call_void_def call_lib_def case_prod_beta)

text \<open>
  C2, as the code has it. For a feature name that resolves to no node, the integer get
  returns 0, the float get returns 0.0, and the string get returns the null pointer (not
  an empty string); each of the three sets returns the world the lookup left. The lookup
  leaves the caller's memory alone and calls at most the transport's \<^verbatim>\<open>get_genicam\<close>
  and the tree's \<^verbatim>\<open>arv_gc_get_node\<close>, so no accessor of any node is invoked.
\<close>

theorem unresolved_feature_sentinels:
  assumes "arv_device_get_feature device gc feature w = (NULL, w1)"
  shows "arv_device_get_integer_feature_value device gc feature w = (0, w1)
       \<and> arv_device_get_float_feature_value device gc feature w = (zero_double, w1)
       \<and> arv_device_get_string_feature_value device gc feature w = (NULL, w1)
       \<and> arv_device_set_integer_feature_value device gc feature i w = w1
       \<and> arv_device_set_float_feature_value device gc feature d w = w1
       \<and> arv_device_set_string_feature_value device gc feature s w = w1
       \<and> heap w1 = heap w
       \<and> (calls w1 = calls w \<or> calls w1 = calls w @ [V_get_genicam]
            \<or> calls w1 = calls w @ [V_get_genicam, Gc_get_node feature])"
  using assms get_feature_heap [OF assms] get_feature_calls [OF assms]
  by (simp add: arv_device_set_integer_feature_value_def arv_device_get_integer_feature_value_def
        arv_device_set_float_feature_value_def arv_device_get_float_feature_value_def
        arv_device_set_string_feature_value_def arv_device_get_string_feature_value_def
        gc_cast_def)

theorem unresolved_feature_sentinels_witness:
  "arv_device_get_integer_feature_value example_device spec_gc (Some ''Gamma'') example_world
     = (0, example_world\<lparr>calls := [V_get_genicam, Gc_get_node (Some ''Gamma'')]\<rparr>)
 \<and> arv_device_get_float_feature_value example_device spec_gc (Some ''Gamma'') example_world
     = (Double 0, example_world\<lparr>calls := [V_get_genicam, Gc_get_node (Some ''Gamma'')]\<rparr>)
 \<and> arv_device_get_string_feature_value example_device spec_gc (Some ''Gamma'') example_world
     = (NULL, example_world\<lparr>calls := [V_get_genicam, Gc_get_node (Some ''Gamma'')]\<rparr>)
 \<and> arv_device_set_integer_feature_value example_device spec_gc (Some ''Gamma'') 5 example_world
     = example_world\<lparr>calls := [V_get_genicam, Gc_get_node (Some ''Gamma'')]\<rparr>
 \<and> arv_device_set_float_feature_value example_device spec_gc (Some ''Gamma'') (Double 1)
      example_world
     = example_world\<lparr>calls := [V_get_genicam, Gc_get_node (Some ''Gamma'')]\<rparr>
 \<and> arv_device_set_string_feature_value example_device spec_gc (Some ''Gamma'') (Some ''x'')
      example_world
     = example_world\<lparr>calls := [V_get_genicam, Gc_get_node (Some ''Gamma'')]\<rparr>
 \<and> arv_device_set_integer_feature_value NULL spec_gc (Some ''Width'') 5 example_world
     = example_world\<lparr>criticals :=
          [(''arv_device_get_genicam'', ''ARV_IS_DEVICE (device)''),
           (''arv_device_get_feature'', ''ARV_IS_GC (genicam)'')]\<rparr>"
  using unresolved_feature_sentinels [OF example_lookup_absent [where name = "''Gamma''"],
      where i = 5 and d = "Double 1" and s = "Some ''x''"]
    unresolved_feature_sentinels [OF lookup_on_null_device [where gc = spec_gc
      and feature = "Some ''Width''" and w = example_world], where i = 5]
  by (simp add: example_tree_def zero_double_def example_world_fields)

text \<open>
  C2 as stated fails on the string get: for the name \<open>Gamma\<close>, which the example tree
  does not have, the lookup gives no node and \<^verbatim>\<open>arv_device_get_string_feature_value\<close>
  returns a value that is not the empty string (it is \<open>NULL\<close>, the source's
  \<^verbatim>\<open>return NULL\<close>).
\<close>

theorem unresolved_string_feature_is_not_empty_string:
  "fst (arv_device_get_feature example_device spec_gc (Some ''Gamma'') example_world) = NULL
 \<and> fst (arv_device_get_string_feature_value example_device spec_gc (Some ''Gamma'')
      example_world) \<noteq> Some ''''"
  by (simp add: arv_device_get_string_feature_value_def example_lookup example_tree_def
      gc_cast_def)

text \<open>
  C6. \<^verbatim>\<open>arv_device_execute_command\<close> calls the node's \<^verbatim>\<open>arv_gc_command_execute\<close> when
  the name resolves to a node that passes the Command check, and only then. In every other
  case (no such name, no valid tree, an invalid device, a node of another type) the world
  it returns is the world of the bare lookup, up to the text of the warning GLib logs when
  there is no tree: the transport and tree state are the lookup's, the caller's memory is
  untouched, and no call is made beyond the lookup's. When the lookup logged nothing the
  two worlds are equal.
\<close>

theorem execute_command_only_on_command:
  assumes "arv_device_get_feature device gc feature w = (node, w1)"
  shows
    "(ARV_IS_GC_COMMAND gc node (lib w1) \<longrightarrow>
        (\<exists>n. node = Some n
           \<and> arv_device_execute_command device gc feature w
               = call_void (Command_execute n) (arv_gc_command_execute gc n) w1))
   \<and> (\<not> ARV_IS_GC_COMMAND gc node (lib w1) \<longrightarrow>
        arv_device_execute_command device gc feature w
          = w1\<lparr>criticals := criticals (arv_device_execute_command device gc feature w)\<rparr>
        \<and> heap (arv_device_execute_command device gc feature w) = heap w
        \<and> (criticals w1 = criticals w \<longrightarrow> arv_device_execute_command device gc feature w = w1))"
  using assms
  by (auto simp: arv_device_execute_command_def arv_device_get_feature_def
        arv_device_get_genicam_def call_lib_def call_void_def g_return_if_fail_warning_def
        ARV_IS_GC_NODE_OF_def gc_cast_def split: option.splits if_splits prod.splits)

text \<open>
  On the example camera: the Command node is executed; on the Integer node \<open>Width\<close> and on
  the unknown name \<open>Gamma\<close> the world is the given one with only the lookup recorded.
\<close>

theorem execute_command_only_on_command_witness:
  "arv_device_execute_command example_device spec_gc (Some ''AcquisitionStart'') example_world
     = example_world
         \<lparr>lib := update_node ''AcquisitionStart'' node_execute example_camera,
          calls := [V_get_genicam, Gc_get_node (Some ''AcquisitionStart''),
                    Command_execute ''AcquisitionStart'']\<rparr>
 \<and> arv_device_execute_command example_device spec_gc (Some ''Width'') example_world
     = example_world\<lparr>calls := [V_get_genicam, Gc_get_node (Some ''Width'')]\<rparr>
 \<and> arv_device_execute_command example_device spec_gc (Some ''Gamma'') example_world
     = example_world\<lparr>calls := [V_get_genicam, Gc_get_node (Some ''Gamma'')]\<rparr>"
  using execute_command_only_on_command [OF example_lookup [where name = "''AcquisitionStart''"]]
    execute_command_only_on_command [OF example_lookup [where name = "''Width''"]]
    execute_command_only_on_command [OF example_lookup [where name = "''Gamma''"]]
  by (simp add: example_is_a null_is_no_node example_tree_def example_world_fields
      call_void_def spec_gc_execute)

text \<open>
  C7. \<^verbatim>\<open>arv_device_get_integer_feature_bounds\<close> writes through \<^verbatim>\<open>min\<close> and \<^verbatim>\<open>max\<close>
  only when the resolved node passes the Integer check, and
  \<^verbatim>\<open>arv_device_get_float_feature_bounds\<close> only when it passes the Float check. Otherwise
  (no node, or a node of another type) the function returns the world the lookup left, and
  the caller's memory, both output locations included, is exactly what it was before the
  call.
\<close>

theorem bounds_written_only_for_own_variant:
  assumes "arv_device_get_feature device gc feature w = (node, w1)"
  shows
    "(\<not> ARV_IS_GC_INTEGER gc node (lib w1) \<longrightarrow>
        arv_device_get_integer_feature_bounds device gc feature min_p max_p w = w1
        \<and> heap (arv_device_get_integer_feature_bounds device gc feature min_p max_p w) = heap w)
   \<and> (\<not> ARV_IS_GC_FLOAT gc node (lib w1) \<longrightarrow>
        arv_device_get_float_feature_bounds device gc feature min_p max_p w = w1
        \<and> heap (arv_device_get_float_feature_bounds device gc feature min_p max_p w) = heap w)"
  using assms get_feature_heap [OF assms]
  by (simp add: arv_device_get_integer_feature_bounds_def arv_device_get_float_feature_bounds_def
        ARV_IS_GC_NODE_OF_def)

theorem bounds_written_only_for_own_variant_witness:
  "arv_device_get_integer_feature_bounds example_device spec_gc (Some ''Gain'') (Some 0) (Some 1)
       example_world
     = example_world\<lparr>calls := [V_get_genicam, Gc_get_node (Some ''Gain'')]\<rparr>
 \<and> arv_device_get_float_feature_bounds example_device spec_gc (Some ''Width'') (Some 0) (Some 1)
       example_world
     = example_world\<lparr>calls := [V_get_genicam, Gc_get_node (Some ''Width'')]\<rparr>
 \<and> heap (arv_device_get_integer_feature_bounds example_device spec_gc (Some ''Gamma'') (Some 0)
       (Some 1) example_world) = heap example_world"
  using bounds_written_only_for_own_variant [OF example_lookup [where name = "''Gain''"],
      where min_p = "Some 0" and max_p = "Some 1"]
    bounds_written_only_for_own_variant [OF example_lookup [where name = "''Width''"],
      where min_p = "Some 0" and max_p = "Some 1"]
    bounds_written_only_for_own_variant [OF example_lookup [where name = "''Gamma''"],
      where min_p = "Some 0" and max_p = "Some 1"]
  by (simp add: example_is_a null_is_no_node example_tree_def example_world_fields)

section \<open>Round trip on the modelled camera\<close>

text \<open>
  C8. On the camera modelled from the specification, for a device whose class returns the
  camera's feature tree: when the name resolves to an Integer node with bounds \<open>[lo, hi]\<close>
  and \<open>lo \<le> v \<le> hi\<close> (signed), \<^verbatim>\<open>arv_device_set_integer_feature_value\<close> with \<open>v\<close>
  followed by \<^verbatim>\<open>arv_device_get_integer_feature_value\<close> returns \<open>v\<close>.
\<close>

theorem integer_feature_round_trip:
  assumes "ARV_DEVICE_GET_CLASS device = Some cls"
    and "get_genicam cls = get_genicam camera_class"
    and "node_at (lib w) name = Some (Integer_node cur lo hi)"
    and "lo \<le>s v" and "v \<le>s hi"
  shows "fst (arv_device_get_integer_feature_value device spec_gc (Some name)
            (arv_device_set_integer_feature_value device spec_gc (Some name) v w)) = v"
  using assms(1-3)
  by (auto simp: arv_device_set_integer_feature_value_def arv_device_get_integer_feature_value_def
        arv_device_get_feature_def arv_device_get_genicam_def call_lib_def call_void_def
        gc_cast_def spec_gc_def camera_class_def arv_device_class_init_def
        node_at_def update_node_def read_node_def
        split: option.splits if_splits prod.splits)

theorem integer_feature_round_trip_witness:
  "node_at (lib example_world) ''Width'' = Some (Integer_node 640 16 1920)
 \<and> (16 :: gint64) \<le>s 800 \<and> (800 :: gint64) \<le>s 1920
 \<and> fst (arv_device_get_integer_feature_value example_device spec_gc (Some ''Width'')
      (arv_device_set_integer_feature_value example_device spec_gc (Some ''Width'') 800
         example_world)) = 800"
proof -
  have n: "node_at (lib example_world) ''Width'' = Some (Integer_node 640 16 1920)"
    by (simp add: example_world_fields node_at_def example_camera_def example_tree_def)
  have lo: "(16 :: gint64) \<le>s 800" and hi: "(800 :: gint64) \<le>s 1920"
    by (simp_all add: word_sle_eq)
  show ?thesis
    using n lo hi integer_feature_round_trip [OF example_device_class refl n lo hi]
    by simp
qed

section \<open>The example camera at work\<close>

text \<open>
  Calls that pass their guards reach the transport or the node: a memory read is delegated,
  a register written is read back, the bounds of an Integer node are stored through the
  non-null out-parameters only, a Boolean node coerces (and a value whose low 32 bits are
  zero sets it false), an Enumeration node is reached by symbol and by value, and the
  signal is emitted.
\<close>

lemmas example_defs =
  example_device_def example_world_def example_camera_def example_tree_def camera_class_def
  arv_device_class_init_def spec_gc_def node_at_def update_node_def read_node_def
  call_lib_def call_void_def call_mem_def gc_cast_def store_i64_def store_double_def
  arv_device_get_genicam_def arv_device_get_feature_def

lemma example_read_memory_reaches_transport:
  "fst (arv_device_read_memory example_device 256 4 (Some 64) example_world) = True
 \<and> calls (snd (arv_device_read_memory example_device 256 4 (Some 64) example_world))
     = [V_read_memory 256 4]"
  by (simp add: arv_device_read_memory_def example_defs)

lemma example_register_round_trip:
  "u32s (heap (snd (arv_device_read_register example_device 4096 (Some 8)
      (snd (arv_device_write_register example_device 4096 42 example_world))))) 8 = 42"
  by (simp add: arv_device_read_register_def arv_device_write_register_def example_defs)

lemma example_integer_bounds_written:
  "i64s (heap (arv_device_get_integer_feature_bounds example_device spec_gc (Some ''Width'')
      (Some 0) (Some 1) example_world)) 0 = 16
 \<and> i64s (heap (arv_device_get_integer_feature_bounds example_device spec_gc (Some ''Width'')
      (Some 0) (Some 1) example_world)) 1 = 1920
 \<and> i64s (heap (arv_device_get_integer_feature_bounds example_device spec_gc (Some ''Width'')
      NULL (Some 1) example_world)) 0 = 7"
  by (simp add: arv_device_get_integer_feature_bounds_def example_defs)

lemma example_boolean_coercion:
  "fst (arv_device_get_integer_feature_value example_device spec_gc (Some ''ReverseX'')
     (arv_device_set_integer_feature_value example_device spec_gc (Some ''ReverseX'') 5
        example_world)) = 1"
  by (simp add: arv_device_get_integer_feature_value_def arv_device_set_integer_feature_value_def
      example_defs)

lemma example_boolean_narrowing:
  "fst (arv_device_get_integer_feature_value example_device spec_gc (Some ''ReverseX'')
     (arv_device_set_integer_feature_value example_device spec_gc (Some ''ReverseX'') 4294967296
        (arv_device_set_integer_feature_value example_device spec_gc (Some ''ReverseX'') 1
           example_world))) = 0"
  by (simp add: arv_device_get_integer_feature_value_def arv_device_set_integer_feature_value_def
      example_defs)

lemma example_enumeration_by_name_and_value:
  "fst (arv_device_get_integer_feature_value example_device spec_gc (Some ''PixelFormat'')
     (arv_device_set_string_feature_value example_device spec_gc (Some ''PixelFormat'')
        (Some ''RGB8'') example_world)) = 1
 \<and> fst (arv_device_get_string_feature_value example_device spec_gc (Some ''PixelFormat'')
     (arv_device_set_integer_feature_value example_device spec_gc (Some ''PixelFormat'') 0
        example_world)) = Some ''Mono8''"
  by (simp add: arv_device_get_integer_feature_value_def arv_device_set_integer_feature_value_def
      arv_device_get_string_feature_value_def arv_device_set_string_feature_value_def
      example_defs)

lemma example_control_lost_emitted:
  "arv_device_emit_control_lost_signal example_device example_world
     = example_world\<lparr>calls := [Signal_emit]\<rparr>"
  by (simp add: arv_device_emit_control_lost_signal_def g_signal_emit_def example_defs)

end
